theory Spec2Isabelle
  imports Complex_Main
begin

section \<open>Exceptions\<close>

text \<open>
  The exceptions of \<^verbatim>\<open>Scripts/status.py\<close> as values. \<open>SystemExit\<close> is what
  \<^verbatim>\<open>sys.exit(code)\<close> raises; in Python it derives from \<open>BaseException\<close> and not from
  \<open>Exception\<close>, so \<^verbatim>\<open>except Exception\<close> lets it pass while a bare \<^verbatim>\<open>except:\<close> catches it.
\<close>

datatype py_exn =
    ZeroDivisionError
  | IndexError
  | KeyError
  | ValueError
  | OSError
  | CalledProcessError
  | UnicodeDecodeError
  | SystemExit int

fun is_Exception :: "py_exn \<Rightarrow> bool" where
  "is_Exception (SystemExit code) = False"
| "is_Exception e = True"

text \<open>Sequencing of two steps, the first of which may raise.\<close>

definition and_then :: "py_exn + 'a \<Rightarrow> ('a \<Rightarrow> py_exn + 'b) \<Rightarrow> py_exn + 'b" where
  "and_then m f = (case m of Inl e \<Rightarrow> Inl e | Inr x \<Rightarrow> f x)"

section \<open>String and list operations of the language\<close>

text \<open>
  A \<^verbatim>\<open>str\<close> is a \<open>string\<close>; the model covers the code points below 256. The white space
  of \<^verbatim>\<open>str.strip()\<close> and \<^verbatim>\<open>str.split()\<close> in that range: tab, line feed, vertical tab, form
  feed, carriage return, the four separators 0x1C to 0x1F, space, 0x85 and 0xA0.
\<close>

definition py_whitespace :: "char list" where
  "py_whitespace =
     [CHR 0x09, CHR 0x0A, CHR 0x0B, CHR 0x0C, CHR 0x0D,
      CHR 0x1C, CHR 0x1D, CHR 0x1E, CHR 0x1F, CHR '' '', CHR 0x85, CHR 0xA0]"

definition py_isspace :: "char \<Rightarrow> bool" where
  "py_isspace c = (c \<in> set py_whitespace)"

text \<open>\<^verbatim>\<open>s.strip()\<close>\<close>

definition py_strip :: "string \<Rightarrow> string" where
  "py_strip s = rev (dropWhile py_isspace (rev (dropWhile py_isspace s)))"

text \<open>\<^verbatim>\<open>s.rstrip(c)\<close> for a single character \<open>c\<close>\<close>

definition py_rstrip :: "char \<Rightarrow> string \<Rightarrow> string" where
  "py_rstrip c s = rev (dropWhile (\<lambda>x. x = c) (rev s))"

text \<open>\<^verbatim>\<open>s.split(sep)\<close> for a single character \<open>sep\<close>: empty pieces are kept.\<close>

fun split_at :: "char \<Rightarrow> string \<Rightarrow> string list" where
  "split_at sep [] = [[]]"
| "split_at sep (c # cs) =
     (if c = sep then [] # split_at sep cs
      else (case split_at sep cs of
              [] \<Rightarrow> [[c]]
            | piece # pieces \<Rightarrow> (c # piece) # pieces))"

text \<open>
  \<^verbatim>\<open>s.split()\<close>: the maximal runs of characters that are not white space; \<open>w\<close> is the
  run read so far.
\<close>

fun split_words :: "string \<Rightarrow> string \<Rightarrow> string list" where
  "split_words w [] = (if w = [] then [] else [w])"
| "split_words w (c # cs) =
     (if py_isspace c then (if w = [] then split_words [] cs else w # split_words [] cs)
      else split_words (w @ [c]) cs)"

definition py_split :: "string \<Rightarrow> string list" where
  "py_split s = split_words [] s"

text \<open>\<^verbatim>\<open>s.startswith(p)\<close>\<close>

definition startswith :: "string \<Rightarrow> string \<Rightarrow> bool" where
  "startswith s p = (take (length p) s = p)"

text \<open>\<^verbatim>\<open>xs[i]\<close>: a negative index counts from the end, an index out of range raises.\<close>

definition py_getitem :: "'a list \<Rightarrow> int \<Rightarrow> py_exn + 'a" where
  "py_getitem xs i =
     (let j = (if i < 0 then i + int (length xs) else i)
      in if j < 0 \<or> int (length xs) \<le> j then Inl IndexError else Inr (xs ! nat j))"

section \<open>Configuration and state\<close>

text \<open>
  The module-level constants that the functions below read. \<open>ICONS\<close> is the dictionary
  \<^verbatim>\<open>config["icons"]\<close>; the four thresholds are the entries of \<^verbatim>\<open>THRESHOLDS\<close>.
\<close>

record config =
  HOSTNAME :: string
  ROTATION_INTERVAL :: int
  ICONS_AVAILABLE :: bool
  ICONS :: "string \<rightharpoonup> string"
  ICON_WIDTH :: int
  ICON_WIDTH_LARGE :: int
  load_warn :: real
  temp_warn :: real
  mem_warn :: real
  disk_warn :: real

text \<open>
  The built-in conversions between numbers and text, taken as parameters: \<open>py_float s\<close>
  is \<^verbatim>\<open>float(s)\<close>, which returns a number or raises, and \<open>py_format n x\<close> is the text of
  \<open>x\<close> with \<open>n\<close> decimals, as in \<^verbatim>\<open>f"{x:.2f}"\<close>. Numbers are modelled as reals.
\<close>

record py_builtins =
  py_float :: "string \<Rightarrow> py_exn + real"
  py_format :: "nat \<Rightarrow> real \<Rightarrow> string"

text \<open>
  The image is the list of the texts drawn on it since it was last blanked:
  \<open>Text x y s f\<close> is \<^verbatim>\<open>draw.text((x, y), s, font=f, fill=255)\<close>.
\<close>

datatype py_font = Font | Font_large | Icon_font | Icon_font_large

datatype draw_op = Text int int string py_font

text \<open>The two rotation variables of the main loop.\<close>

record rotation_state =
  rotation_index :: int
  loop_counter :: int

text \<open>
  The state of the process: the rotation variables, the image (\<open>canvas\<close>), what the
  display shows (\<open>screen\<close>, the image last sent to it), and the number of calls of
  \<^verbatim>\<open>time.sleep(LOOPTIME)\<close> that have returned.
\<close>

record state = rotation_state +
  canvas :: "draw_op list"
  screen :: "draw_op list"
  sleeps :: nat

text \<open>
  What the world does during one pass of drawing. \<open>draw_out\<close> is the call of
  \<^verbatim>\<open>draw.text\<close> that raises, if any: its number among the calls of the pass, counted
  from 0 in the order they are made, and the exception it raises. \<open>show_out\<close> is the
  exception that \<^verbatim>\<open>oled.image(image); oled.show()\<close> raises, if any.
\<close>

record device_env =
  draw_out :: "(nat \<times> py_exn) option"
  show_out :: "py_exn option"

text \<open>
  During one tick, also what each \<^verbatim>\<open>subprocess.check_output(...).decode('utf-8')\<close> does:
  it returns the text of its command or raises.
\<close>

record tick_env = device_env +
  net_out :: "py_exn + string"
  load_out :: "py_exn + string"
  temp_out :: "py_exn + string"
  mem_out :: "py_exn + string"
  disk_out :: "py_exn + string"

section \<open>Network facts: \<^verbatim>\<open>get_network_info\<close>\<close>

type_synonym fact = "string \<times> string"

definition skip_prefixes :: "string list" where
  "skip_prefixes = [''docker'', ''br-'', ''veth'', ''tailscale'', ''tun'', ''tap'']"

text \<open>
  The body of the \<^verbatim>\<open>for line in output.split('\n')\<close> loop: \<open>info_list\<close> before the line,
  \<open>info_list\<close> after it.
\<close>

definition network_line :: "fact list \<Rightarrow> string \<Rightarrow> fact list" where
  "network_line info_list line =
     (if line \<noteq> [] then
        (let parts = py_split line in
         if 2 \<le> length parts then
           (let interface = parts ! 0; ip = parts ! 1 in
            if list_ex (startswith interface) skip_prefixes then info_list
            else if startswith interface ''eth'' \<or> startswith interface ''en''
              then info_list @ [(''lan'', ip)]
            else if startswith interface ''wlan'' \<or> startswith interface ''wl''
              then info_list @ [(''wifi'', ip)]
            else info_list)
         else info_list)
      else info_list)"

text \<open>
  \<^verbatim>\<open>get_network_info()\<close>. \<open>enumeration\<close> is what
  \<^verbatim>\<open>subprocess.check_output(cmd, shell=True).decode('utf-8')\<close> does: it returns the text of
  the pipeline or raises. The whole enumeration stands in a \<^verbatim>\<open>try\<close> whose
  handler is a bare \<^verbatim>\<open>except: pass\<close>, which catches every exception.
\<close>

definition get_network_info :: "config \<Rightarrow> py_exn + string \<Rightarrow> fact list" where
  "get_network_info cfg enumeration =
     (let info_list = [(''hostname'', HOSTNAME cfg)] in
      case enumeration of
        Inl e \<Rightarrow> info_list
      | Inr out \<Rightarrow> foldl network_line info_list (split_at CHR 0x0A (py_strip out)))"

text \<open>
  The enumerated interfaces: the (interface, address) pairs of the output, one for each
  line that has at least two fields, in the order of the output. The names that line
  189 skips, and those that lines 193 and 195 accept.
\<close>

definition enumerated :: "string \<Rightarrow> (string \<times> string) list" where
  "enumerated out =
     map (\<lambda>parts. (parts ! 0, parts ! 1))
       (filter (\<lambda>parts. 2 \<le> length parts) (map py_split (split_at CHR 0x0A (py_strip out))))"

definition skipped :: "string \<Rightarrow> bool" where
  "skipped interface = list_ex (startswith interface) skip_prefixes"

definition lan_name :: "string \<Rightarrow> bool" where
  "lan_name interface = (startswith interface ''eth'' \<or> startswith interface ''en'')"

definition wifi_name :: "string \<Rightarrow> bool" where
  "wifi_name interface = (startswith interface ''wlan'' \<or> startswith interface ''wl'')"

section \<open>Icons and thresholds\<close>

text \<open>\<^verbatim>\<open>get_icon_for_value(base_name, value, threshold)\<close>\<close>

definition get_icon_for_value :: "string \<Rightarrow> 'a::ord \<Rightarrow> 'a \<Rightarrow> string" where
  "get_icon_for_value base_name v threshold =
     (if v \<ge> threshold then base_name @ ''_warn'' else base_name @ ''_normal'')"

text \<open>
  \<^verbatim>\<open>draw_icon(x, y, icon_key)\<close>: the texts it draws and the width it returns.
\<close>

definition draw_icon :: "config \<Rightarrow> int \<Rightarrow> int \<Rightarrow> string \<Rightarrow> draw_op list \<times> int" where
  "draw_icon cfg x y icon_key =
     (if ICONS_AVAILABLE cfg then
        (case ICONS cfg icon_key of
           Some glyph \<Rightarrow> ([Text x y glyph Icon_font], ICON_WIDTH cfg)
         | None \<Rightarrow> ([], 0))
      else ([], 0))"

section \<open>The rotation scheduler\<close>

text \<open>
  Lines 261 to 263 of the main loop:
  \<^verbatim>\<open>if loop_counter >= ROTATION_INTERVAL:
      rotation_index = (rotation_index + 1) % len(network_info)
      loop_counter = 0\<close>
  The remainder by the length of an empty list raises \<open>ZeroDivisionError\<close> before
  either variable is assigned.
\<close>

definition rotate ::
  "int \<Rightarrow> 'a list \<Rightarrow> 'm rotation_state_scheme \<Rightarrow> py_exn + 'm rotation_state_scheme" where
  "rotate interval network_info s =
     (if loop_counter s \<ge> interval then
        (if int (length network_info) = 0 then Inl ZeroDivisionError
         else Inr (s\<lparr>rotation_index := (rotation_index s + 1) mod int (length network_info),
                     loop_counter := 0\<rparr>))
      else Inr s)"

text \<open>
  Lines 266 to 269:
  \<^verbatim>\<open>if network_info:
      info_type, info_value = network_info[rotation_index % len(network_info)]
  else:
      info_type, info_value = "hostname", "No network"\<close>
\<close>

definition current_info :: "fact list \<Rightarrow> int \<Rightarrow> py_exn + fact" where
  "current_info network_info index =
     (if network_info \<noteq> [] then py_getitem network_info (index mod int (length network_info))
      else Inr (''hostname'', ''No network''))"

text \<open>
  The rotation step and the selection of one tick, lines 261 to 269: the rotation
  variables after them and the fact to display, or the exception raised.
\<close>

definition rotate_and_select ::
  "int \<Rightarrow> fact list \<Rightarrow> 'm rotation_state_scheme \<Rightarrow> py_exn + ('m rotation_state_scheme \<times> fact)" where
  "rotate_and_select interval network_info s =
     and_then (rotate interval network_info s) (\<lambda>s'.
     and_then (current_info network_info (rotation_index s')) (\<lambda>info. Inr (s', info)))"

text \<open>
  The rotation variables over one tick whose body runs to its end: lines 261 to 263,
  then \<^verbatim>\<open>loop_counter += 1\<close> of line 359.
\<close>

definition rotation_tick ::
  "int \<Rightarrow> 'a list \<Rightarrow> 'm rotation_state_scheme \<Rightarrow> py_exn + 'm rotation_state_scheme" where
  "rotation_tick interval network_info s =
     and_then (rotate interval network_info s)
       (\<lambda>s'. Inr (s'\<lparr>loop_counter := loop_counter s' + 1\<rparr>))"

text \<open>
  \<open>n\<close> ticks with the same fact list. A tick whose rotation step raises leaves both
  variables as they were (the loop swallows the exception).
\<close>

fun rotation_ticks ::
  "nat \<Rightarrow> int \<Rightarrow> 'a list \<Rightarrow> 'm rotation_state_scheme \<Rightarrow> 'm rotation_state_scheme" where
  "rotation_ticks 0 interval network_info s = s"
| "rotation_ticks (Suc n) interval network_info s =
     (case rotation_tick interval network_info s of
        Inl e \<Rightarrow> rotation_ticks n interval network_info s
      | Inr s' \<Rightarrow> rotation_ticks n interval network_info s')"

text \<open>
  The reference state machine, in the words of the specification: if
  \<open>ticks_since_rotate \<ge> rotation_interval\<close>, set
  \<open>cursor = (cursor + 1) mod max(1, len(facts))\<close> and reset \<open>ticks_since_rotate\<close> to 0;
  else increment \<open>ticks_since_rotate\<close>.
\<close>

definition spec_rotation_step ::
  "int \<Rightarrow> 'a list \<Rightarrow> 'm rotation_state_scheme \<Rightarrow> 'm rotation_state_scheme" where
  "spec_rotation_step rotation_interval facts s =
     (if loop_counter s \<ge> rotation_interval
      then s\<lparr>rotation_index := (rotation_index s + 1) mod max 1 (int (length facts)),
             loop_counter := 0\<rparr>
      else s\<lparr>loop_counter := loop_counter s + 1\<rparr>)"

section \<open>Metric collection\<close>

text \<open>
  Each collector takes what its \<^verbatim>\<open>check_output(...).decode('utf-8')\<close> did. That call
  stands before the \<^verbatim>\<open>try\<close> of the collector, so an exception it raises leaves the
  collector; the \<^verbatim>\<open>try\<close> around the conversion has a bare \<^verbatim>\<open>except:\<close>, which
  catches every exception and assigns the defaults.
\<close>

text \<open>Lines 272 to 276, the load average.\<close>

definition collect_load :: "py_builtins \<Rightarrow> py_exn + string \<Rightarrow> py_exn + real" where
  "collect_load bi out =
     and_then out (\<lambda>output.
       let load_raw = py_strip output in
       Inr (case py_float bi load_raw of Inr x \<Rightarrow> x | Inl e \<Rightarrow> 0))"

text \<open>
  Lines 279 to 283, the temperature:
  \<^verbatim>\<open>temp_raw = subprocess.check_output(...).decode('utf-8').strip()
  try:
      temp_value = float(temp_raw) / 1000
  except:
      temp_value = 0.0\<close>
\<close>

definition collect_temperature :: "py_builtins \<Rightarrow> py_exn + string \<Rightarrow> py_exn + real" where
  "collect_temperature bi out =
     and_then out (\<lambda>output.
       let temp_raw = py_strip output in
       Inr (case py_float bi temp_raw of Inr x \<Rightarrow> x / 1000 | Inl e \<Rightarrow> 0))"

text \<open>
  Lines 286 to 295, the memory: \<open>(mem_used_gb, mem_total_gb, mem_percent)\<close>.
\<close>

definition collect_memory ::
  "py_builtins \<Rightarrow> py_exn + string \<Rightarrow> py_exn + (string \<times> string \<times> real)" where
  "collect_memory bi out =
     and_then out (\<lambda>output.
       let mem_parts = py_split (py_strip output) in
       Inr (case and_then (py_getitem mem_parts 0) (\<lambda>mem_used_gb.
                 and_then (py_getitem mem_parts 1) (\<lambda>mem_total_gb.
                 and_then (py_getitem mem_parts 2) (\<lambda>p.
                 and_then (py_float bi p) (\<lambda>mem_percent.
                 Inr (mem_used_gb, mem_total_gb, mem_percent))))) of
              Inr r \<Rightarrow> r
            | Inl e \<Rightarrow> (''0'', ''0'', 0)))"

text \<open>
  Lines 298 to 307, the disk: \<open>(disk_used, disk_total, disk_percent)\<close>.
\<close>

definition collect_disk ::
  "py_builtins \<Rightarrow> py_exn + string \<Rightarrow> py_exn + (string \<times> string \<times> real)" where
  "collect_disk bi out =
     and_then out (\<lambda>output.
       let disk_parts = py_split (py_strip output) in
       Inr (case and_then (py_getitem disk_parts 0) (\<lambda>u.
                 and_then (py_getitem disk_parts 1) (\<lambda>t.
                 and_then (py_getitem disk_parts 2) (\<lambda>p.
                 and_then (py_float bi (py_rstrip CHR ''%'' p)) (\<lambda>disk_percent.
                 Inr (py_rstrip CHR ''G'' u, py_rstrip CHR ''G'' t, disk_percent))))) of
              Inr r \<Rightarrow> r
            | Inl e \<Rightarrow> (''0'', ''0'', 0)))"

section \<open>The frame\<close>

text \<open>
  The pattern of lines 1, 3 and 4 and of the load on line 2:
  \<^verbatim>\<open>x = 0
  if ICONS_AVAILABLE:
      x += draw_icon(x, y, icon_key)
  draw.text((x, y), text, font=font, fill=255)\<close>
\<close>

definition icon_then_text :: "config \<Rightarrow> int \<Rightarrow> string \<Rightarrow> string \<Rightarrow> draw_op list" where
  "icon_then_text cfg y icon_key label =
     (let (drawn, width) = (if ICONS_AVAILABLE cfg then draw_icon cfg 0 y icon_key else ([], 0));
          x = 0 + width
      in drawn @ [Text x y label Font])"

text \<open>Lines 309 to 353: the texts of the four lines, in the order they are drawn.\<close>

definition draw_lines ::
  "config \<Rightarrow> py_builtins \<Rightarrow> fact \<Rightarrow> real \<Rightarrow> real \<Rightarrow> string \<times> string \<times> real \<Rightarrow>
     string \<times> string \<times> real \<Rightarrow> draw_op list" where
  "draw_lines cfg bi info load_value temp_value mem disk =
     (let (info_type, info_value) = info;
          (mem_used_gb, mem_total_gb, mem_percent) = mem;
          (disk_used, disk_total, disk_percent) = disk;
          line1_y = 0; line2_y = 16; line3_y = 32; line4_y = 48;
          load_icon = get_icon_for_value ''load'' load_value (load_warn cfg);
          temp_icon = get_icon_for_value ''temp'' temp_value (temp_warn cfg);
          temp_str = py_format bi 0 temp_value @ ''C'';
          mem_icon = get_icon_for_value ''mem'' mem_percent (mem_warn cfg);
          mem_display =
            mem_used_gb @ ''/'' @ mem_total_gb @ ''GB '' @ py_format bi 0 mem_percent @ ''%'';
          disk_icon = get_icon_for_value ''disk'' disk_percent (disk_warn cfg);
          disk_display =
            disk_used @ ''/'' @ disk_total @ ''GB '' @ py_format bi 0 disk_percent @ ''%''
      in icon_then_text cfg line1_y info_type info_value
         @ icon_then_text cfg line2_y load_icon (py_format bi 2 load_value)
         @ (if ICONS_AVAILABLE cfg
            then fst (draw_icon cfg 75 line2_y temp_icon)
                 @ [Text (75 + ICON_WIDTH cfg) line2_y temp_str Font]
            else [Text 80 line2_y temp_str Font])
         @ icon_then_text cfg line3_y mem_icon mem_display
         @ icon_then_text cfg line4_y disk_icon disk_display)"

text \<open>
  Lines 266 to 353 of one tick, but for the drawing itself: the selection of the fact
  and the four collectors; the texts that the calls of \<^verbatim>\<open>draw.text\<close> then draw, in the
  order of the calls, or the first exception that the selection or a collector raises.
\<close>

definition render ::
  "config \<Rightarrow> py_builtins \<Rightarrow> tick_env \<Rightarrow> fact list \<Rightarrow> int \<Rightarrow> py_exn + draw_op list" where
  "render cfg bi env network_info index =
     and_then (current_info network_info index) (\<lambda>info.
     and_then (collect_load bi (load_out env)) (\<lambda>load_value.
     and_then (collect_temperature bi (temp_out env)) (\<lambda>temp_value.
     and_then (collect_memory bi (mem_out env)) (\<lambda>mem.
     and_then (collect_disk bi (disk_out env)) (\<lambda>disk.
     Inr (draw_lines cfg bi info load_value temp_value mem disk))))))"

text \<open>
  The calls of \<^verbatim>\<open>draw.text\<close> that draw \<open>texts\<close>, one after the other, when \<open>made\<close>
  calls of the pass were made before them: the call that \<open>draw_out\<close> names raises, and
  the texts of the calls before it stay on the image.
\<close>

definition draw_texts ::
  "'e device_env_scheme \<Rightarrow> nat \<Rightarrow> draw_op list \<Rightarrow> state \<Rightarrow> py_exn option \<times> state" where
  "draw_texts env made texts s =
     (case draw_out env of
        None \<Rightarrow> (None, s\<lparr>canvas := canvas s @ texts\<rparr>)
      | Some (k, e) \<Rightarrow>
          (if made \<le> k \<and> k < made + length texts
           then (Some e, s\<lparr>canvas := canvas s @ take (k - made) texts\<rparr>)
           else (None, s\<lparr>canvas := canvas s @ texts\<rparr>)))"

text \<open>\<^verbatim>\<open>oled.image(image); oled.show()\<close>\<close>

definition oled_show :: "'e device_env_scheme \<Rightarrow> state \<Rightarrow> py_exn option \<times> state" where
  "oled_show env s =
     (case show_out env of
        Some e \<Rightarrow> (Some e, s)
      | None \<Rightarrow> (None, s\<lparr>screen := canvas s\<rparr>))"

section \<open>The render loop\<close>

text \<open>
  The body of the \<^verbatim>\<open>try\<close> of the main loop after the image is blanked (lines 257 to
  359): the exception that leaves it, if any, and the state it leaves behind.
\<close>

definition tick_after_clear ::
  "config \<Rightarrow> py_builtins \<Rightarrow> tick_env \<Rightarrow> state \<Rightarrow> py_exn option \<times> state" where
  "tick_after_clear cfg bi env s =
     (let network_info = get_network_info cfg (net_out env) in
      case rotate (ROTATION_INTERVAL cfg) network_info s of
        Inl e \<Rightarrow> (Some e, s)
      | Inr s2 \<Rightarrow>
          (case render cfg bi env network_info (rotation_index s2) of
             Inl e \<Rightarrow> (Some e, s2)
           | Inr texts \<Rightarrow>
               (case draw_texts env 0 texts s2 of
                  (Some e, s3) \<Rightarrow> (Some e, s3)
                | (None, s3) \<Rightarrow>
                    (case oled_show env s3 of
                       (Some e, s4) \<Rightarrow> (Some e, s4)
                     | (None, s4) \<Rightarrow> (None, s4\<lparr>loop_counter := loop_counter s4 + 1\<rparr>)))))"

text \<open>The whole body of the \<^verbatim>\<open>try\<close>, lines 254 to 359.\<close>

definition tick_body ::
  "config \<Rightarrow> py_builtins \<Rightarrow> tick_env \<Rightarrow> state \<Rightarrow> py_exn option \<times> state" where
  "tick_body cfg bi env s = tick_after_clear cfg bi env (s\<lparr>canvas := []\<rparr>)"

text \<open>
  A process is running in some state, or it has ended with the exception that reached
  the top level; \<open>SystemExit code\<close> there makes \<open>code\<close> the exit code of the process.
\<close>

datatype process = Running state | Exited py_exn state

text \<open>
  \<^verbatim>\<open>time.sleep(LOOPTIME)\<close>, for an interval that is a number and not negative: the
  call returns.
\<close>

definition time_sleep :: "state \<Rightarrow> state" where
  "time_sleep s = s\<lparr>sleeps := Suc (sleeps s)\<rparr>"

text \<open>
  What follows the body of the \<^verbatim>\<open>try\<close>: \<^verbatim>\<open>except Exception as e: pass\<close>, then
  \<^verbatim>\<open>time.sleep(LOOPTIME)\<close>.
\<close>

definition except_and_sleep :: "py_exn option \<times> state \<Rightarrow> process" where
  "except_and_sleep r =
     (case r of
        (None, s) \<Rightarrow> Running (time_sleep s)
      | (Some e, s) \<Rightarrow> (if is_Exception e then Running (time_sleep s) else Exited e s))"

text \<open>One iteration of \<^verbatim>\<open>while True\<close>, lines 252 to 365.\<close>

definition loop_iteration :: "config \<Rightarrow> py_builtins \<Rightarrow> tick_env \<Rightarrow> state \<Rightarrow> process" where
  "loop_iteration cfg bi env s = except_and_sleep (tick_body cfg bi env s)"

text \<open>The loop over the ticks whose environments are listed.\<close>

fun run_loop :: "config \<Rightarrow> py_builtins \<Rightarrow> tick_env list \<Rightarrow> state \<Rightarrow> process" where
  "run_loop cfg bi [] s = Running s"
| "run_loop cfg bi (env # envs) s =
     (case loop_iteration cfg bi env s of
        Running s' \<Rightarrow> run_loop cfg bi envs s'
      | Exited e s' \<Rightarrow> Exited e s')"

text \<open>
  The exceptions that the calls of one tick raise outside \<^verbatim>\<open>get_network_info\<close>.
\<close>

definition raised_in_tick :: "tick_env \<Rightarrow> py_exn list" where
  "raised_in_tick env =
     concat (map (\<lambda>out. case out of Inl e \<Rightarrow> [e] | Inr output \<Rightarrow> [])
               [load_out env, temp_out env, mem_out env, disk_out env])
     @ (case draw_out env of Some (k, e) \<Rightarrow> [e] | None \<Rightarrow> [])
     @ (case show_out env of Some e \<Rightarrow> [e] | None \<Rightarrow> [])"

definition raises_only_Exceptions :: "tick_env \<Rightarrow> bool" where
  "raises_only_Exceptions env = list_all is_Exception (raised_in_tick env)"

section \<open>Shutdown\<close>

text \<open>
  \<^verbatim>\<open>show_offline_screen()\<close>, lines 215 to 230. With icons, \<^verbatim>\<open>ICONS["offline"]\<close> is
  looked up after the host name is drawn and before the glyph is.
\<close>

definition show_offline_screen ::
  "config \<Rightarrow> 'e device_env_scheme \<Rightarrow> state \<Rightarrow> py_exn option \<times> state" where
  "show_offline_screen cfg env s =
     (case draw_texts env 0 [Text 10 8 (HOSTNAME cfg) Font] (s\<lparr>canvas := []\<rparr>) of
        (Some e, s2) \<Rightarrow> (Some e, s2)
      | (None, s2) \<Rightarrow>
          (if ICONS_AVAILABLE cfg then
             (case ICONS cfg ''offline'' of
                None \<Rightarrow> (Some KeyError, s2)
              | Some glyph \<Rightarrow>
                  (case draw_texts env 1
                          [Text 10 32 glyph Icon_font_large,
                           Text (10 + ICON_WIDTH_LARGE cfg) 32 ''OFFLINE'' Font_large] s2 of
                     (Some e, s3) \<Rightarrow> (Some e, s3)
                   | (None, s3) \<Rightarrow> oled_show env s3))
           else
             (case draw_texts env 1 [Text 10 32 ''OFFLINE'' Font_large] s2 of
                (Some e, s3) \<Rightarrow> (Some e, s3)
              | (None, s3) \<Rightarrow> oled_show env s3)))"

text \<open>
  \<^verbatim>\<open>signal_handler(sig, frame)\<close>, lines 232 to 238: whatever \<^verbatim>\<open>show_offline_screen()\<close>
  raises is caught by a bare \<^verbatim>\<open>except: pass\<close>; then \<^verbatim>\<open>sys.exit(0)\<close> raises
  \<open>SystemExit 0\<close> at the point where the signal interrupted the main thread.
\<close>

definition signal_handler ::
  "config \<Rightarrow> 'e device_env_scheme \<Rightarrow> state \<Rightarrow> py_exn \<times> state" where
  "signal_handler cfg env s = (SystemExit 0, snd (show_offline_screen cfg env s))"

text \<open>
  A signal delivered while the main thread is in \<^verbatim>\<open>time.sleep(LOOPTIME)\<close>: the handler
  runs and its exception is raised by the \<^verbatim>\<open>sleep\<close>, outside every \<^verbatim>\<open>try\<close>.
\<close>

definition signal_in_sleep :: "config \<Rightarrow> 'e device_env_scheme \<Rightarrow> state \<Rightarrow> process" where
  "signal_in_sleep cfg henv s = (case signal_handler cfg henv s of (x, s') \<Rightarrow> Exited x s')"

text \<open>
  A signal delivered while the main thread is in the \<^verbatim>\<open>check_output\<close> of
  \<^verbatim>\<open>get_network_info\<close> (line 179): the image has been blanked, the handler runs, and its
  exception is raised by that call; the iteration goes on from there.
\<close>

definition signal_in_enumeration ::
  "config \<Rightarrow> py_builtins \<Rightarrow> 'e device_env_scheme \<Rightarrow> tick_env \<Rightarrow> state \<Rightarrow> process" where
  "signal_in_enumeration cfg bi henv env s =
     (case signal_handler cfg henv (s\<lparr>canvas := []\<rparr>) of
        (x, s') \<Rightarrow> except_and_sleep (tick_after_clear cfg bi (env\<lparr>net_out := Inl x\<rparr>) s'))"

section \<open>Example data\<close>

text \<open>
  A configuration without the icon font, a stand-in for the two conversions (it knows
  the four numbers of the example tick), four facts, a tick in which every call returns,
  and the state in which the loop starts.
\<close>

definition example_cfg :: config where
  "example_cfg =
     \<lparr>HOSTNAME = ''pi'', ROTATION_INTERVAL = 3, ICONS_AVAILABLE = False, ICONS = Map.empty,
      ICON_WIDTH = 0, ICON_WIDTH_LARGE = 0,
      load_warn = 2, temp_warn = 70, mem_warn = 80, disk_warn = 80\<rparr>"

definition example_builtins :: py_builtins where
  "example_builtins =
     \<lparr>py_float = (\<lambda>s. if s = ''0.42'' then Inr (42 / 100)
                       else if s = ''45000'' then Inr 45000
                       else if s = ''30'' then Inr 30
                       else if s = ''16'' then Inr 16
                       else Inl ValueError),
      py_format = (\<lambda>n x. if x = 42 / 100 then ''0.42''
                          else if x = 45 then ''45''
                          else if x = 30 then ''30''
                          else if x = 16 then ''16''
                          else ''0'')\<rparr>"

definition example_facts :: "fact list" where
  "example_facts =
     [(''hostname'', ''pi''), (''lan'', ''192.168.1.5''), (''wifi'', ''192.168.1.6''),
      (''lan'', ''10.0.0.2'')]"

definition example_env :: tick_env where
  "example_env =
     \<lparr>draw_out = None, show_out = None,
      net_out = Inr (''eth0 192.168.1.5'' @ [CHR 0x0A] @ ''usb0 10.0.0.5'' @ [CHR 0x0A]),
      load_out = Inr ''0.42'', temp_out = Inr (''45000'' @ [CHR 0x0A]),
      mem_out = Inr ''1.2 4.0 30'', disk_out = Inr ''5G 32G 16%''\<rparr>"

definition example_state :: state where
  "example_state =
     \<lparr>rotation_index = 0, loop_counter = 0, canvas = [], screen = [], sleeps = 0\<rparr>"

text \<open>
  Five ticks: the load command fails, the display fails, the enumeration and the
  temperature command fail, the second call of the drawing fails, and a tick in which
  every call returns.
\<close>

definition failing_ticks :: "tick_env list" where
  "failing_ticks =
     [example_env\<lparr>load_out := Inl CalledProcessError\<rparr>,
      example_env\<lparr>show_out := Some OSError\<rparr>,
      example_env\<lparr>net_out := Inl OSError, temp_out := Inl UnicodeDecodeError\<rparr>,
      example_env\<lparr>draw_out := Some (1, ValueError)\<rparr>,
      example_env]"

section \<open>Evaluation\<close>

text \<open>The equations that evaluate the model on a concrete input.\<close>

lemmas model_defs =
  loop_iteration_def tick_body_def tick_after_clear_def except_and_sleep_def time_sleep_def
  render_def draw_texts_def oled_show_def rotate_def current_info_def py_getitem_def and_then_def
  collect_load_def collect_temperature_def collect_memory_def collect_disk_def
  draw_lines_def icon_then_text_def draw_icon_def get_icon_for_value_def
  get_network_info_def network_line_def py_strip_def py_split_def py_rstrip_def
  py_isspace_def py_whitespace_def startswith_def skip_prefixes_def
  raised_in_tick_def

lemmas example_defs =
  example_env_def example_cfg_def example_builtins_def example_state_def

section \<open>Properties of \<^verbatim>\<open>get_network_info\<close>\<close>

lemma network_line_append: "network_line info_list line = info_list @ network_line [] line"
  by (simp add: network_line_def Let_def)

lemma foldl_network_line:
  "foldl network_line info_list lines = info_list @ concat (map (network_line []) lines)"
proof (induction lines arbitrary: info_list)
  case Nil
  show ?case by simp
next
  case (Cons l ls)
  have "foldl network_line info_list (l # ls) = foldl network_line (network_line info_list l) ls"
    by simp
  also have "\<dots> = network_line info_list l @ concat (map (network_line []) ls)"
    by (rule Cons.IH)
  also have "\<dots> = info_list @ network_line [] l @ concat (map (network_line []) ls)"
    using network_line_append [of info_list l] by simp
  finally show ?case by simp
qed

lemma get_network_info_Cons:
  "\<exists>facts. get_network_info cfg enumeration = (''hostname'', HOSTNAME cfg) # facts"
  by (cases enumeration) (simp_all add: get_network_info_def foldl_network_line)

lemma py_split_Nil: "py_split [] = []"
  by (simp add: py_split_def)

lemma network_line_facts:
  "network_line [] line =
     map (\<lambda>(interface, ip). (if lan_name interface then ''lan'' else ''wifi'', ip))
      (filter (\<lambda>(interface, ip). \<not> skipped interface \<and> (lan_name interface \<or> wifi_name interface))
        (map (\<lambda>parts. (parts ! 0, parts ! 1))
          (filter (\<lambda>parts. 2 \<le> length parts) [py_split line])))"
  by (simp add: network_line_def Let_def py_split_Nil skipped_def lan_name_def wifi_name_def)

lemma concat_network_lines:
  "concat (map (network_line []) lines) =
     map (\<lambda>(interface, ip). (if lan_name interface then ''lan'' else ''wifi'', ip))
      (filter (\<lambda>(interface, ip). \<not> skipped interface \<and> (lan_name interface \<or> wifi_name interface))
        (map (\<lambda>parts. (parts ! 0, parts ! 1))
          (filter (\<lambda>parts. 2 \<le> length parts) (map py_split lines))))"
proof (induction lines)
  case Nil
  show ?case by simp
next
  case (Cons l ls)
  show ?case using Cons.IH network_line_facts [of l] by simp
qed

text \<open>
  Claim C7, as amended. When the enumeration raises, whatever the exception,
  \<^verbatim>\<open>get_network_info\<close> returns the list of one fact \<open>("hostname", HOSTNAME)\<close>: the
  hostname fact is appended inside the function, before the enumeration is tried, and
  not by the caller.
\<close>

theorem get_network_info_enumeration_failure:
  "get_network_info cfg (Inl e) = [(''hostname'', HOSTNAME cfg)]"
  by (simp add: get_network_info_def)

text \<open>
  The claim C7 as it is stated fails: with the host name \<open>pi\<close> and an enumeration that
  raises \<open>CalledProcessError\<close>, the list returned is not empty.
\<close>

theorem get_network_info_failure_not_empty:
  "get_network_info example_cfg (Inl CalledProcessError) = [(''hostname'', ''pi'')]
   \<and> get_network_info example_cfg (Inl CalledProcessError) \<noteq> []"
  by (simp add: get_network_info_def example_cfg_def)

text \<open>
  Claim C8, as amended. For every enumeration output the list returned is the hostname
  fact followed, in the order of the output, by one fact for each enumerated
  (interface, address) pair whose interface name starts with none of the skipped
  prefixes and starts with \<open>eth\<close> or \<open>en\<close> (kind \<open>lan\<close>) or with \<open>wlan\<close> or \<open>wl\<close>
  (kind \<open>wifi\<close>); the fact pairs the kind with the address. An interface of any other
  name yields no fact.
\<close>

theorem get_network_info_facts:
  "get_network_info cfg (Inr out) =
     (''hostname'', HOSTNAME cfg) #
     map (\<lambda>(interface, ip). (if lan_name interface then ''lan'' else ''wifi'', ip))
      (filter (\<lambda>(interface, ip). \<not> skipped interface \<and> (lan_name interface \<or> wifi_name interface))
        (enumerated out))"
  by (simp add: get_network_info_def foldl_network_line concat_network_lines enumerated_def)

text \<open>
  The claim C8 as it is stated fails: the interface \<open>usb0\<close> is enumerated and starts
  with none of the skipped prefixes, yet the list holds no fact for it.
\<close>

theorem unclassified_interface_dropped:
  "enumerated ''usb0 10.0.0.5'' = [(''usb0'', ''10.0.0.5'')]
   \<and> \<not> skipped ''usb0''
   \<and> get_network_info example_cfg (Inr ''usb0 10.0.0.5'') = [(''hostname'', ''pi'')]"
  by (simp add: enumerated_def skipped_def skip_prefixes_def startswith_def
      get_network_info_def network_line_def py_strip_def py_split_def py_isspace_def
      py_whitespace_def example_cfg_def)

section \<open>Properties of the fact selection\<close>

lemma current_info_nonempty:
  assumes "network_info \<noteq> []"
  shows "current_info network_info i = Inr (network_info ! nat (i mod int (length network_info)))"
    and "nat (i mod int (length network_info)) < length network_info"
proof -
  have pos: "0 < int (length network_info)" using assms by simp
  have lo: "0 \<le> i mod int (length network_info)" using pos by (rule pos_mod_sign)
  have hi: "i mod int (length network_info) < int (length network_info)"
    using pos by (rule pos_mod_bound)
  show "current_info network_info i = Inr (network_info ! nat (i mod int (length network_info)))"
  proof -
    have a: "\<not> i mod int (length network_info) < 0" using lo by linarith
    have b: "\<not> int (length network_info) \<le> i mod int (length network_info)"
      using hi by linarith
    show ?thesis using assms a b by (simp add: current_info_def py_getitem_def Let_def)
  qed
  show "nat (i mod int (length network_info)) < length network_info"
    using lo hi by linarith
qed

lemma rotate_nonempty:
  "network_info \<noteq> [] \<Longrightarrow> \<exists>s'. rotate interval network_info s = Inr s'"
  by (simp add: rotate_def)

text \<open>
  Claim C10. Whatever the enumeration does, the list that \<^verbatim>\<open>get_network_info\<close>
  returns is not empty and its first element is \<open>("hostname", HOSTNAME)\<close>; so the
  selection of the main loop always takes the branch that indexes the list, and never
  the branch of the empty list.
\<close>

theorem get_network_info_hostname_first:
  "get_network_info cfg enumeration \<noteq> []
   \<and> hd (get_network_info cfg enumeration) = (''hostname'', HOSTNAME cfg)
   \<and> current_info (get_network_info cfg enumeration) index =
       py_getitem (get_network_info cfg enumeration)
         (index mod int (length (get_network_info cfg enumeration)))"
proof -
  obtain facts where "get_network_info cfg enumeration = (''hostname'', HOSTNAME cfg) # facts"
    using get_network_info_Cons by blast
  then show ?thesis by (simp add: current_info_def)
qed

text \<open>
  Claim C6. The selection of lines 266 to 269 raises nothing, on any list and any
  cursor: on the empty list the fact is \<open>("hostname", "No network")\<close>; on a list that is
  not empty it is \<open>facts[cursor mod len(facts)]\<close>, an index in range whatever the cursor
  is, also one left by a longer list. On every tick of the loop, whose list is the one
  that \<^verbatim>\<open>get_network_info\<close> returns, the rotation step and the selection raise nothing,
  neither a remainder by zero nor an index out of range, and the fact displayed is
  that element of the list.
\<close>

theorem fact_selection:
  "current_info [] index = Inr (''hostname'', ''No network'')
   \<and> (network_info \<noteq> [] \<longrightarrow>
        current_info network_info index
          = Inr (network_info ! nat (index mod int (length network_info)))
        \<and> nat (index mod int (length network_info)) < length network_info)
   \<and> (\<exists>s'. rotate interval (get_network_info cfg enumeration) s = Inr s'
         \<and> rotate_and_select interval (get_network_info cfg enumeration) s
             = Inr (s', get_network_info cfg enumeration
                          ! nat (rotation_index s'
                                   mod int (length (get_network_info cfg enumeration))))
         \<and> nat (rotation_index s' mod int (length (get_network_info cfg enumeration)))
             < length (get_network_info cfg enumeration))"
proof (intro conjI impI)
  show "current_info [] index = Inr (''hostname'', ''No network'')"
    by (simp add: current_info_def)
next
  assume ne: "network_info \<noteq> []"
  show "current_info network_info index
          = Inr (network_info ! nat (index mod int (length network_info)))"
    using ne by (rule current_info_nonempty(1))
  show "nat (index mod int (length network_info)) < length network_info"
    using ne by (rule current_info_nonempty(2))
next
  let ?info = "get_network_info cfg enumeration"
  have ne: "?info \<noteq> []" using get_network_info_Cons [of cfg enumeration] by auto
  obtain s' where r: "rotate interval ?info s = Inr s'"
    using rotate_nonempty [OF ne] by blast
  have "rotate_and_select interval ?info s =
          Inr (s', ?info ! nat (rotation_index s' mod int (length ?info)))"
    using r current_info_nonempty(1) [OF ne] by (simp add: rotate_and_select_def and_then_def)
  then show "\<exists>s'. rotate interval ?info s = Inr s'
         \<and> rotate_and_select interval ?info s
             = Inr (s', ?info ! nat (rotation_index s' mod int (length ?info)))
         \<and> nat (rotation_index s' mod int (length ?info)) < length ?info"
    using r current_info_nonempty(2) [OF ne] by blast
qed

text \<open>
  Claim C6 on the empty list with the cursor at 5, on four facts with the cursor at 6,
  left there by a longer list, and on two ticks of the loop with the cursor at 3: one
  whose enumeration finds one interface and whose rotation step fires, and one whose
  enumeration fails.
\<close>

theorem fact_selection_witness:
  "current_info [] 5 = Inr (''hostname'', ''No network'')
   \<and> example_facts \<noteq> []
   \<and> current_info example_facts 6 = Inr (''wifi'', ''192.168.1.6'')
   \<and> get_network_info example_cfg (net_out example_env)
       = [(''hostname'', ''pi''), (''lan'', ''192.168.1.5'')]
   \<and> rotate_and_select 3 (get_network_info example_cfg (net_out example_env))
         \<lparr>rotation_index = 3, loop_counter = 3\<rparr>
       = Inr (\<lparr>rotation_index = 0, loop_counter = 0\<rparr>, (''hostname'', ''pi''))
   \<and> rotate_and_select 3 (get_network_info example_cfg (Inl OSError))
         \<lparr>rotation_index = 3, loop_counter = 1\<rparr>
       = Inr (\<lparr>rotation_index = 3, loop_counter = 1\<rparr>, (''hostname'', ''pi''))"
proof -
  have h: "example_facts \<noteq> []" by (simp add: example_facts_def)
  show ?thesis
    using h
      fact_selection [where index = 5 and network_info = example_facts and interval = 3
        and cfg = example_cfg and enumeration = "net_out example_env"
        and s = "\<lparr>rotation_index = 3, loop_counter = 3\<rparr>"]
      fact_selection [where index = 6 and network_info = example_facts and interval = 3
        and cfg = example_cfg and enumeration = "Inl OSError"
        and s = "\<lparr>rotation_index = 3, loop_counter = 1\<rparr>"]
    by (simp add: example_facts_def example_defs rotate_def rotate_and_select_def and_then_def
        current_info_def py_getitem_def get_network_info_def network_line_def py_strip_def
        py_split_def py_isspace_def py_whitespace_def startswith_def skip_prefixes_def)
qed

section \<open>Properties of the rotation scheduler\<close>

text \<open>
  Claim C1, as amended. On a tick whose body runs to its end, with a list that is not
  empty or a counter below the interval: if \<open>loop_counter \<ge> ROTATION_INTERVAL\<close> the
  cursor becomes \<open>(cursor + 1) mod len(facts)\<close> and the counter becomes 1 (it is reset
  to 0 by line 263 and incremented by line 359 of the same tick); otherwise the counter
  is incremented by 1 and the cursor is unchanged.
\<close>

theorem rotation_tick_step:
  assumes "network_info \<noteq> [] \<or> loop_counter s < interval"
  shows "rotation_tick interval network_info s =
     Inr (if loop_counter s \<ge> interval
          then s\<lparr>rotation_index := (rotation_index s + 1) mod int (length network_info),
                 loop_counter := 1\<rparr>
          else s\<lparr>loop_counter := loop_counter s + 1\<rparr>)"
  using assms by (auto simp add: rotation_tick_def rotate_def and_then_def)

text \<open>
  The amended claim C1 at interval 3: with four facts, cursor 3 and counter 3 the cursor
  wraps to 0 and the counter is 1; with the empty list and counter 2 the counter is 3.
\<close>

theorem rotation_tick_step_witness:
  "example_facts \<noteq> []
   \<and> rotation_tick 3 example_facts \<lparr>rotation_index = 3, loop_counter = 3\<rparr>
        = Inr \<lparr>rotation_index = 0, loop_counter = 1\<rparr>
   \<and> rotation_tick 3 ([]::fact list) \<lparr>rotation_index = 3, loop_counter = 2\<rparr>
        = Inr \<lparr>rotation_index = 3, loop_counter = 3\<rparr>"
proof -
  have h: "example_facts \<noteq> []
      \<or> loop_counter \<lparr>rotation_index = 3, loop_counter = 3\<rparr> < (3::int)"
    by (simp add: example_facts_def)
  have k: "([]::fact list) \<noteq> []
      \<or> loop_counter \<lparr>rotation_index = 3, loop_counter = 2\<rparr> < (3::int)"
    by simp
  show ?thesis
    using rotation_tick_step [OF h] rotation_tick_step [OF k]
    by (simp add: example_facts_def)
qed

text \<open>
  The claim C1 as it is stated fails: with four facts, interval 3, cursor 0 and counter
  3, the tick leaves the counter at 1, where the reference state machine leaves it at 0.
\<close>

theorem rotation_tick_differs_from_reference:
  "rotation_tick 3 example_facts \<lparr>rotation_index = 0, loop_counter = 3\<rparr>
     = Inr \<lparr>rotation_index = 1, loop_counter = 1\<rparr>
   \<and> spec_rotation_step 3 example_facts \<lparr>rotation_index = 0, loop_counter = 3\<rparr>
     = \<lparr>rotation_index = 1, loop_counter = 0\<rparr>
   \<and> rotation_tick 3 example_facts \<lparr>rotation_index = 0, loop_counter = 3\<rparr>
     \<noteq> Inr (spec_rotation_step 3 example_facts \<lparr>rotation_index = 0, loop_counter = 3\<rparr>)"
  by (simp add: rotation_tick_def rotate_def and_then_def spec_rotation_step_def example_facts_def)

lemma rotation_ticks_from:
  "rotation_ticks n 3 [a, b, c, d]
      \<lparr>rotation_index = int (k div 3) mod 4, loop_counter = int (k mod 3) + 1\<rparr>
   = \<lparr>rotation_index = int ((k + n) div 3) mod 4, loop_counter = int ((k + n) mod 3) + 1\<rparr>"
proof (induction n arbitrary: k)
  case 0
  show ?case by simp
next
  case (Suc n)
  have step: "rotation_tick 3 [a, b, c, d]
      \<lparr>rotation_index = int (k div 3) mod 4, loop_counter = int (k mod 3) + 1\<rparr>
    = Inr \<lparr>rotation_index = int (Suc k div 3) mod 4, loop_counter = int (Suc k mod 3) + 1\<rparr>"
  proof (cases "k mod 3 = 2")
    case True
    then have d: "Suc k div 3 = Suc (k div 3)" and m: "Suc k mod 3 = 0"
      by presburger+
    have "(int (k div 3) mod 4 + 1) mod 4 = int (Suc (k div 3)) mod 4"
      by presburger
    then show ?thesis using True d m
      by (simp add: rotation_tick_def rotate_def and_then_def)
  next
    case False
    then have d: "Suc k div 3 = k div 3" and m: "Suc k mod 3 = Suc (k mod 3)"
      and lt: "k mod 3 < 2"
      by presburger+
    show ?thesis using d m lt
      by (simp add: rotation_tick_def rotate_def and_then_def)
  qed
  show ?case using step Suc.IH [of "Suc k"] by simp
qed

text \<open>
  Claim C2, as amended. From cursor 0 and counter 0, with interval 3 and any four
  facts, after \<open>n + 1\<close> ticks the cursor is \<open>(n div 3) mod 4\<close> and the counter is
  \<open>n mod 3 + 1\<close>: the cursor is still 0 after 3 ticks, becomes 1 in the 4th tick and 2
  in the 7th, and from then on advances by one, wrapping mod 4, once every 3 ticks.
\<close>

theorem cursor_after_ticks:
  "rotation_ticks (Suc n) 3 [a, b, c, d] \<lparr>rotation_index = 0, loop_counter = 0\<rparr>
   = \<lparr>rotation_index = int (n div 3) mod 4, loop_counter = int (n mod 3) + 1\<rparr>"
proof -
  have first: "rotation_tick 3 [a, b, c, d] \<lparr>rotation_index = 0, loop_counter = 0\<rparr>
     = Inr \<lparr>rotation_index = 0, loop_counter = 1\<rparr>"
    by (simp add: rotation_tick_def rotate_def and_then_def)
  show ?thesis using first rotation_ticks_from [of n a b c d 0] by simp
qed

text \<open>
  The claim C2 as it is stated fails: after exactly 3 ticks the cursor is 0, not 1, and
  after exactly 6 ticks it is 1, not 2.
\<close>

theorem cursor_after_three_ticks:
  "rotation_index (rotation_ticks 3 3 example_facts \<lparr>rotation_index = 0, loop_counter = 0\<rparr>) = 0
   \<and> rotation_index (rotation_ticks 6 3 example_facts \<lparr>rotation_index = 0, loop_counter = 0\<rparr>) = 1"
  by (simp add: numeral_eq_Suc rotation_tick_def rotate_def and_then_def example_facts_def)

section \<open>Properties of the threshold classifier\<close>

text \<open>
  Claim C3. For every value \<open>v\<close> and threshold \<open>T\<close> of an ordered type, the icon key is
  \<open>base_warn\<close> if and only if \<open>v \<ge> T\<close> and \<open>base_normal\<close> if and only if not; at
  \<open>v = T\<close> it is \<open>base_warn\<close> and not \<open>base_normal\<close>.
\<close>

theorem get_icon_for_value_threshold:
  fixes v T :: "'a::preorder"
  shows "(get_icon_for_value base v T = base @ ''_warn'' \<longleftrightarrow> v \<ge> T)
       \<and> (get_icon_for_value base v T = base @ ''_normal'' \<longleftrightarrow> \<not> v \<ge> T)
       \<and> get_icon_for_value base T T = base @ ''_warn''
       \<and> get_icon_for_value base T T \<noteq> base @ ''_normal''"
  by (simp add: get_icon_for_value_def)

lemma get_icon_for_value_examples:
  "get_icon_for_value ''temp'' (75::real) 70 = ''temp_warn''
   \<and> get_icon_for_value ''temp'' (70::real) 70 = ''temp_warn''
   \<and> get_icon_for_value ''load'' (42 / 100 :: real) 2 = ''load_normal''"
  by (simp add: get_icon_for_value_def)

section \<open>Properties of the render loop\<close>

lemma collect_load_Inl: "collect_load bi out = Inl e \<Longrightarrow> out = Inl e"
  by (cases out) (simp_all add: collect_load_def and_then_def Let_def)

lemma collect_temperature_Inl: "collect_temperature bi out = Inl e \<Longrightarrow> out = Inl e"
  by (cases out) (simp_all add: collect_temperature_def and_then_def Let_def)

lemma collect_memory_Inl: "collect_memory bi out = Inl e \<Longrightarrow> out = Inl e"
  by (cases out) (simp_all add: collect_memory_def and_then_def Let_def)

lemma collect_disk_Inl: "collect_disk bi out = Inl e \<Longrightarrow> out = Inl e"
  by (cases out) (simp_all add: collect_disk_def and_then_def Let_def)

lemma raised_in_tick_mem:
  "load_out env = Inl e \<or> temp_out env = Inl e \<or> mem_out env = Inl e \<or> disk_out env = Inl e
     \<or> draw_out env = Some (k, e) \<or> show_out env = Some e \<Longrightarrow> e \<in> set (raised_in_tick env)"
  by (auto simp add: raised_in_tick_def)

lemma render_Inl:
  assumes ne: "network_info \<noteq> []" and r: "render cfg bi env network_info i = Inl e"
  shows "e \<in> set (raised_in_tick env)"
proof -
  obtain info where ci: "current_info network_info i = Inr info"
    using current_info_nonempty(1) [OF ne] by blast
  show ?thesis
  proof (cases "collect_load bi (load_out env)")
    case (Inl e1)
    then have "e = e1" using r ci by (simp add: render_def and_then_def)
    then show ?thesis using collect_load_Inl [OF Inl] raised_in_tick_mem by blast
  next
    case l: (Inr load_value)
    show ?thesis
    proof (cases "collect_temperature bi (temp_out env)")
      case (Inl e1)
      then have "e = e1" using r ci l by (simp add: render_def and_then_def)
      then show ?thesis using collect_temperature_Inl [OF Inl] raised_in_tick_mem by blast
    next
      case t: (Inr temp_value)
      show ?thesis
      proof (cases "collect_memory bi (mem_out env)")
        case (Inl e1)
        then have "e = e1" using r ci l t by (simp add: render_def and_then_def)
        then show ?thesis using collect_memory_Inl [OF Inl] raised_in_tick_mem by blast
      next
        case m: (Inr mem)
        show ?thesis
        proof (cases "collect_disk bi (disk_out env)")
          case (Inl e1)
          then have "e = e1" using r ci l t m by (simp add: render_def and_then_def)
          then show ?thesis using collect_disk_Inl [OF Inl] raised_in_tick_mem by blast
        next
          case d: (Inr disk)
          have False
            using r ci l t m d by (simp add: render_def and_then_def)
          then show ?thesis ..
        qed
      qed
    qed
  qed
qed

lemma oled_show_cases:
  "oled_show env s = (r, s') \<Longrightarrow>
     (r = None \<and> show_out env = None \<and> s' = s\<lparr>screen := canvas s\<rparr>)
     \<or> (\<exists>e. r = Some e \<and> show_out env = Some e \<and> s' = s)"
  by (auto simp add: oled_show_def split: option.splits)

lemma draw_texts_cases:
  "draw_texts env made texts s = (r, s') \<Longrightarrow>
     (r = None \<and> s' = s\<lparr>canvas := canvas s @ texts\<rparr>)
     \<or> (\<exists>k e. r = Some e \<and> draw_out env = Some (k, e)
            \<and> s' = s\<lparr>canvas := canvas s @ take (k - made) texts\<rparr>)"
  by (auto simp add: draw_texts_def split: option.splits if_splits)

lemma tick_after_clear_raises:
  assumes "tick_after_clear cfg bi env s = (Some e, s')"
  shows "e \<in> set (raised_in_tick env)"
proof -
  let ?info = "get_network_info cfg (net_out env)"
  have ne: "?info \<noteq> []" using get_network_info_Cons [of cfg "net_out env"] by auto
  obtain s2 where rot: "rotate (ROTATION_INTERVAL cfg) ?info s = Inr s2"
    using rotate_nonempty [OF ne] by blast
  show ?thesis
  proof (cases "render cfg bi env ?info (rotation_index s2)")
    case (Inl e1)
    then have "e = e1" using assms rot by (simp add: tick_after_clear_def)
    then show ?thesis using render_Inl [OF ne Inl] by simp
  next
    case (Inr texts)
    obtain d s3 where dr: "draw_texts env 0 texts s2 = (d, s3)"
      by (cases "draw_texts env 0 texts s2") auto
    show ?thesis
    proof (cases d)
      case (Some e1)
      then have "e = e1" using assms rot Inr dr by (simp add: tick_after_clear_def)
      then obtain k where "draw_out env = Some (k, e)"
        using draw_texts_cases [OF dr] Some by auto
      then show ?thesis using raised_in_tick_mem by blast
    next
      case None
      obtain r s4 where sh: "oled_show env s3 = (r, s4)"
        by (cases "oled_show env s3") auto
      have "r = Some e" using assms rot Inr dr None sh
        by (cases r) (simp_all add: tick_after_clear_def)
      then have "show_out env = Some e" using oled_show_cases [OF sh] by auto
      then show ?thesis using raised_in_tick_mem by blast
    qed
  qed
qed

lemma rotate_sleeps: "rotate interval network_info s = Inr s' \<Longrightarrow> sleeps s' = sleeps s"
  by (auto simp add: rotate_def split: if_splits)

lemma draw_texts_sleeps: "sleeps (snd (draw_texts env made texts s)) = sleeps s"
  by (simp add: draw_texts_def split: option.splits prod.splits)

lemma oled_show_sleeps: "sleeps (snd (oled_show env s)) = sleeps s"
  by (simp add: oled_show_def split: option.splits)

lemma tick_after_clear_sleeps:
  "sleeps (snd (tick_after_clear cfg bi env s)) = sleeps s"
proof -
  let ?info = "get_network_info cfg (net_out env)"
  have ne: "?info \<noteq> []" using get_network_info_Cons [of cfg "net_out env"] by auto
  obtain s2 where rot: "rotate (ROTATION_INTERVAL cfg) ?info s = Inr s2"
    using rotate_nonempty [OF ne] by blast
  have s2: "sleeps s2 = sleeps s" using rotate_sleeps [OF rot] .
  show ?thesis
  proof (cases "render cfg bi env ?info (rotation_index s2)")
    case (Inl e1)
    then show ?thesis using rot s2 by (simp add: tick_after_clear_def)
  next
    case (Inr texts)
    obtain d s3 where dr: "draw_texts env 0 texts s2 = (d, s3)"
      by (cases "draw_texts env 0 texts s2") auto
    have s3: "sleeps s3 = sleeps s" using draw_texts_sleeps [of env 0 texts s2] dr s2 by simp
    obtain r s4 where sh: "oled_show env s3 = (r, s4)"
      by (cases "oled_show env s3") auto
    have s4: "sleeps s4 = sleeps s" using oled_show_sleeps [of env s3] sh s3 by simp
    show ?thesis using rot Inr dr sh s3 s4
      by (cases d; cases r) (simp_all add: tick_after_clear_def)
  qed
qed

lemma except_and_sleep_running:
  assumes "\<And>e. fst r = Some e \<Longrightarrow> is_Exception e"
  shows "except_and_sleep r = Running (time_sleep (snd r))"
proof (cases r)
  case (Pair x s)
  then show ?thesis using assms by (cases x) (simp_all add: except_and_sleep_def)
qed

lemma tick_after_clear_running:
  assumes "raises_only_Exceptions env"
  shows "\<exists>s'. except_and_sleep (tick_after_clear cfg bi env s) = Running s'
           \<and> sleeps s' = Suc (sleeps s)"
proof -
  let ?r = "tick_after_clear cfg bi env s"
  have "\<And>e. fst ?r = Some e \<Longrightarrow> is_Exception e"
  proof -
    fix e assume "fst ?r = Some e"
    then have "?r = (Some e, snd ?r)"
      by (simp add: prod_eq_iff)
    then have "e \<in> set (raised_in_tick env)" by (rule tick_after_clear_raises)
    then show "is_Exception e"
      using assms by (simp add: raises_only_Exceptions_def list_all_iff)
  qed
  then have "except_and_sleep ?r = Running (time_sleep (snd ?r))"
    by (rule except_and_sleep_running)
  moreover have "sleeps (time_sleep (snd ?r)) = Suc (sleeps s)"
    using tick_after_clear_sleeps [of cfg bi env s] by (simp add: time_sleep_def)
  ultimately show ?thesis by blast
qed

lemma loop_iteration_running:
  assumes "raises_only_Exceptions env"
  shows "\<exists>s'. loop_iteration cfg bi env s = Running s' \<and> sleeps s' = Suc (sleeps s)"
  using tick_after_clear_running [OF assms, of cfg bi "s\<lparr>canvas := []\<rparr>"]
  by (simp add: loop_iteration_def tick_body_def)

lemma tick_body_completes:
  assumes "raised_in_tick env = []"
  shows "fst (tick_body cfg bi env s) = None"
proof (cases "fst (tick_body cfg bi env s)")
  case None
  then show ?thesis .
next
  case (Some e)
  then have "tick_after_clear cfg bi env (s\<lparr>canvas := []\<rparr>) = (Some e, snd (tick_body cfg bi env s))"
    by (simp add: tick_body_def prod_eq_iff)
  then have "e \<in> set (raised_in_tick env)" by (rule tick_after_clear_raises)
  then show ?thesis using assms by simp
qed

text \<open>
  A tick whose second call of \<^verbatim>\<open>draw.text\<close> raises: the first text stays on the image,
  nothing is shown, and the counter is not incremented.
\<close>

lemma draw_failure_keeps_earlier_texts:
  "tick_body example_cfg example_builtins (example_env\<lparr>draw_out := Some (1, ValueError)\<rparr>)
      example_state
   = (Some ValueError, example_state\<lparr>canvas := [Text 0 0 ''pi'' Font]\<rparr>)"
  by (simp add: model_defs example_defs)

text \<open>
  The rotation variables after a tick whose body ran to its end are those that
  \<open>rotation_tick\<close> gives on the facts of the tick.
\<close>

lemma tick_body_rotation:
  assumes "tick_body cfg bi env s = (None, s')"
  shows "\<exists>r. rotation_tick (ROTATION_INTERVAL cfg) (get_network_info cfg (net_out env)) s = Inr r
           \<and> rotation_index s' = rotation_index r \<and> loop_counter s' = loop_counter r"
proof -
  let ?info = "get_network_info cfg (net_out env)"
  let ?s = "s\<lparr>canvas := []\<rparr>"
  have ne: "?info \<noteq> []" using get_network_info_Cons [of cfg "net_out env"] by auto
  obtain s2 where rot: "rotate (ROTATION_INTERVAL cfg) ?info ?s = Inr s2"
    using rotate_nonempty [OF ne] by blast
  obtain r2 where rot': "rotate (ROTATION_INTERVAL cfg) ?info s = Inr r2"
    using rotate_nonempty [OF ne] by blast
  have same: "rotation_index s2 = rotation_index r2 \<and> loop_counter s2 = loop_counter r2"
    using rot rot' by (auto simp add: rotate_def split: if_splits)
  obtain texts where ren: "render cfg bi env ?info (rotation_index s2) = Inr texts"
    using assms rot
    by (cases "render cfg bi env ?info (rotation_index s2)")
      (simp_all add: tick_body_def tick_after_clear_def)
  obtain d s3 where dr: "draw_texts env 0 texts s2 = (d, s3)"
    by (cases "draw_texts env 0 texts s2") auto
  obtain r s4 where sh: "oled_show env s3 = (r, s4)"
    by (cases "oled_show env s3") auto
  have d: "d = None" using assms rot ren dr
    by (cases d) (simp_all add: tick_body_def tick_after_clear_def)
  have r: "r = None" using assms rot ren dr d sh
    by (cases r) (simp_all add: tick_body_def tick_after_clear_def)
  have s3: "s3 = s2\<lparr>canvas := canvas s2 @ texts\<rparr>"
    using draw_texts_cases [OF dr] d by auto
  have s4: "s4 = s3\<lparr>screen := canvas s3\<rparr>"
    using oled_show_cases [OF sh] r by auto
  have "s' = s4\<lparr>loop_counter := loop_counter s4 + 1\<rparr>"
    using assms rot ren dr d sh r by (simp add: tick_body_def tick_after_clear_def)
  then have "rotation_index s' = rotation_index s2 \<and> loop_counter s' = loop_counter s2 + 1"
    using s3 s4 by simp
  then show ?thesis using rot' same by (simp add: rotation_tick_def and_then_def)
qed

text \<open>
  Claim C4. Over any number of ticks in which the calls of the tick body raise nothing
  but exceptions of class \<open>Exception\<close> (any of them, at any stage from the collection
  to the display, in any tick; the enumeration may raise anything, \<^verbatim>\<open>get_network_info\<close>
  catches it), the loop is still running after the last tick and has slept once for
  every tick: no failure of a tick ends the process or leaves the loop.
\<close>

theorem run_loop_contains_failures:
  assumes "list_all raises_only_Exceptions envs"
  shows "\<exists>s'. run_loop cfg bi envs s = Running s' \<and> sleeps s' = sleeps s + length envs"
  using assms
proof (induction envs arbitrary: s)
  case Nil
  show ?case by simp
next
  case (Cons env envs)
  obtain s1 where it: "loop_iteration cfg bi env s = Running s1" and sl: "sleeps s1 = Suc (sleeps s)"
    using loop_iteration_running [of env cfg bi s] Cons.prems by auto
  obtain s' where "run_loop cfg bi envs s1 = Running s'" and "sleeps s' = sleeps s1 + length envs"
    using Cons.IH [of s1] Cons.prems by auto
  then show ?case using it sl by simp
qed

text \<open>
  Claim C4 on the five ticks of \<open>failing_ticks\<close>: four ticks fail at four different
  stages, the loop sleeps after each of them, and the fifth tick shows its frame.
\<close>

theorem run_loop_contains_failures_witness:
  "list_all raises_only_Exceptions failing_ticks
   \<and> run_loop example_cfg example_builtins failing_ticks example_state
       = Running
          \<lparr>rotation_index = 0, loop_counter = 1,
           canvas =
             [Text 0 0 ''pi'' Font, Text 0 16 ''0.42'' Font, Text 80 16 ''45C'' Font,
              Text 0 32 ''1.2/4.0GB 30%'' Font, Text 0 48 ''5/32GB 16%'' Font],
           screen =
             [Text 0 0 ''pi'' Font, Text 0 16 ''0.42'' Font, Text 80 16 ''45C'' Font,
              Text 0 32 ''1.2/4.0GB 30%'' Font, Text 0 48 ''5/32GB 16%'' Font],
           sleeps = 5\<rparr>"
proof -
  have h: "list_all raises_only_Exceptions failing_ticks"
    by (simp add: failing_ticks_def raises_only_Exceptions_def model_defs example_defs)
  show ?thesis
    using h run_loop_contains_failures [OF h, of example_cfg example_builtins example_state]
    by (simp add: failing_ticks_def model_defs example_defs)
qed

section \<open>Properties of the temperature\<close>

lemma rotate_screen: "rotate interval network_info s = Inr s' \<Longrightarrow> screen s' = screen s"
  by (auto simp add: rotate_def split: if_splits)

lemma tick_body_temperature_failure:
  assumes l: "load_out env = Inr load_text" and t: "temp_out env = Inl e"
  shows "fst (tick_body cfg bi env s) = Some e"
    and "screen (snd (tick_body cfg bi env s)) = screen s"
proof -
  let ?info = "get_network_info cfg (net_out env)"
  let ?s = "s\<lparr>canvas := []\<rparr>"
  have ne: "?info \<noteq> []" using get_network_info_Cons [of cfg "net_out env"] by auto
  obtain s2 where rot: "rotate (ROTATION_INTERVAL cfg) ?info ?s = Inr s2"
    using rotate_nonempty [OF ne] by blast
  obtain info where ci: "current_info ?info (rotation_index s2) = Inr info"
    using current_info_nonempty(1) [OF ne] by blast
  have "render cfg bi env ?info (rotation_index s2) = Inl e"
    using ci l t by (simp add: render_def and_then_def collect_load_def collect_temperature_def)
  then have tb: "tick_body cfg bi env s = (Some e, s2)"
    using rot by (simp add: tick_body_def tick_after_clear_def)
  show "fst (tick_body cfg bi env s) = Some e" using tb by simp
  show "screen (snd (tick_body cfg bi env s)) = screen s"
    using tb rotate_screen [OF rot] by simp
qed

text \<open>
  Claim C9, as amended. When the temperature command returns a text, the collector
  raises nothing: the value is the number read from the stripped text divided by 1000,
  and 0 when the conversion raises, whatever it raises (so also for the empty text that
  the command returns when there is no thermal zone). Such a failure does not reach the
  rest of the tick: a tick in which every call returns runs to its end whatever the
  conversions do. When the temperature command itself raises, the collector raises the
  same exception and assigns no default; on a tick whose load command returned, that
  exception leaves the body of the tick, and nothing is shown.
\<close>

theorem temperature_value:
  "collect_temperature bi (Inr out)
     = Inr (case py_float bi (py_strip out) of Inr x \<Rightarrow> x / 1000 | Inl err \<Rightarrow> 0)
   \<and> collect_temperature bi (Inl e) = Inl e
   \<and> (raised_in_tick env = [] \<longrightarrow> fst (tick_body cfg bi env s) = None)
   \<and> (load_out env = Inr load_text \<and> temp_out env = Inl e \<longrightarrow>
        fst (tick_body cfg bi env s) = Some e
        \<and> screen (snd (tick_body cfg bi env s)) = screen s)"
  using tick_body_completes [of env cfg bi s] tick_body_temperature_failure [of env load_text e cfg bi s]
  by (simp add: collect_temperature_def and_then_def Let_def)

text \<open>
  The amended claim C9 on the reading \<open>45000\<close>, which gives 45; on a tick whose
  temperature command returns the empty text, where the value is 0, the tick runs to
  its end and the frame shows \<open>0C\<close>; and on a tick whose temperature command raises
  \<open>CalledProcessError\<close>, which leaves the body of the tick with nothing shown.
\<close>

theorem temperature_value_witness:
  "raised_in_tick (example_env\<lparr>temp_out := Inr []\<rparr>) = []
   \<and> collect_temperature example_builtins (Inr (''45000'' @ [CHR 0x0A])) = Inr 45
   \<and> collect_temperature example_builtins (Inr []) = Inr 0
   \<and> collect_temperature example_builtins (Inl CalledProcessError) = Inl CalledProcessError
   \<and> fst (tick_body example_cfg example_builtins (example_env\<lparr>temp_out := Inr []\<rparr>)
             example_state) = None
   \<and> screen (snd (tick_body example_cfg example_builtins (example_env\<lparr>temp_out := Inr []\<rparr>)
             example_state))
       = [Text 0 0 ''pi'' Font, Text 0 16 ''0.42'' Font, Text 80 16 ''0C'' Font,
          Text 0 32 ''1.2/4.0GB 30%'' Font, Text 0 48 ''5/32GB 16%'' Font]
   \<and> load_out (example_env\<lparr>temp_out := Inl CalledProcessError\<rparr>) = Inr ''0.42''
   \<and> temp_out (example_env\<lparr>temp_out := Inl CalledProcessError\<rparr>) = Inl CalledProcessError
   \<and> fst (tick_body example_cfg example_builtins
             (example_env\<lparr>temp_out := Inl CalledProcessError\<rparr>) example_state)
       = Some CalledProcessError
   \<and> screen (snd (tick_body example_cfg example_builtins
             (example_env\<lparr>temp_out := Inl CalledProcessError\<rparr>) example_state)) = []"
  using
    temperature_value [where bi = example_builtins and out = "''45000'' @ [CHR 0x0A]"
      and env = "example_env\<lparr>temp_out := Inr []\<rparr>" and cfg = example_cfg
      and s = example_state and e = CalledProcessError and load_text = "''0.42''"]
    temperature_value [where bi = example_builtins and out = "[]"
      and env = "example_env\<lparr>temp_out := Inl CalledProcessError\<rparr>" and cfg = example_cfg
      and s = example_state and e = CalledProcessError and load_text = "''0.42''"]
  by (simp add: model_defs example_defs)

text \<open>
  The claim C9 as it is stated fails: when the temperature command itself raises
  (here \<open>OSError\<close>), the collector raises it, no default is assigned, and the tick
  ends there with nothing drawn or shown.
\<close>

theorem temperature_read_failure_raises:
  "collect_temperature example_builtins (Inl OSError) = Inl OSError
   \<and> tick_body example_cfg example_builtins (example_env\<lparr>temp_out := Inl OSError\<rparr>)
        example_state
       = (Some OSError, example_state)"
  by (simp add: model_defs example_defs)

section \<open>Properties of the shutdown\<close>

lemma show_offline_screen_sleeps:
  "sleeps (snd (show_offline_screen cfg henv s)) = sleeps s"
  by (simp add: show_offline_screen_def draw_texts_def oled_show_def
      split: option.splits prod.splits)

text \<open>
  The handler ends by raising \<open>SystemExit 0\<close> whatever the drawing and the display do.
\<close>

lemma signal_handler_raises_SystemExit: "fst (signal_handler cfg henv s) = SystemExit 0"
  by (simp add: signal_handler_def)

text \<open>
  When nothing fails, the frame it leaves on the display is the host name and the word
  \<open>OFFLINE\<close>, after the glyph of the key \<open>offline\<close> when there are icons.
\<close>

lemma signal_handler_frame_without_icons:
  assumes "draw_out henv = None" and "show_out henv = None" and "\<not> ICONS_AVAILABLE cfg"
  shows "screen (snd (signal_handler cfg henv s)) =
     [Text 10 8 (HOSTNAME cfg) Font, Text 10 32 ''OFFLINE'' Font_large]"
  using assms
  by (simp add: signal_handler_def show_offline_screen_def draw_texts_def oled_show_def)

lemma signal_handler_frame_with_icons:
  assumes "draw_out henv = None" and "show_out henv = None" and "ICONS_AVAILABLE cfg"
    and "ICONS cfg ''offline'' = Some glyph"
  shows "screen (snd (signal_handler cfg henv s)) =
     [Text 10 8 (HOSTNAME cfg) Font, Text 10 32 glyph Icon_font_large,
      Text (10 + ICON_WIDTH_LARGE cfg) 32 ''OFFLINE'' Font_large]"
  using assms
  by (simp add: signal_handler_def show_offline_screen_def draw_texts_def oled_show_def)

text \<open>
  A signal delivered during the sleep ends the process with \<open>SystemExit 0\<close>, also when
  the farewell frame could not be drawn or shown.
\<close>

lemma signal_in_sleep_exits:
  "\<exists>s'. signal_in_sleep cfg henv s = Exited (SystemExit 0) s'"
  by (simp add: signal_in_sleep_def signal_handler_def)

text \<open>
  A \<open>SystemExit\<close> raised in the body of the tick where only the \<^verbatim>\<open>try\<close> of the loop
  encloses it passes \<^verbatim>\<open>except Exception\<close> and ends the process.
\<close>

lemma except_and_sleep_SystemExit:
  "except_and_sleep (Some (SystemExit code), s) = Exited (SystemExit code) s"
  by (simp add: except_and_sleep_def)

text \<open>
  Claim C5 at the input where the code departs from it. A signal delivered while
  \<^verbatim>\<open>get_network_info\<close> waits for its command: the handler runs and raises
  \<open>SystemExit 0\<close> inside the \<^verbatim>\<open>try\<close> of \<^verbatim>\<open>get_network_info\<close>, whose bare
  \<^verbatim>\<open>except:\<close> swallows it; the function returns the hostname fact, the tick goes on, and
  the process is still running after the sleep.
\<close>

theorem signal_in_enumeration_swallowed:
  assumes "raises_only_Exceptions env"
  shows "get_network_info cfg (Inl (SystemExit 0)) = [(''hostname'', HOSTNAME cfg)]
       \<and> (\<exists>s'. signal_in_enumeration cfg bi henv env s = Running s'
                \<and> sleeps s' = Suc (sleeps s))"
proof -
  let ?s = "snd (show_offline_screen cfg henv (s\<lparr>canvas := []\<rparr>))"
  let ?env = "env\<lparr>net_out := Inl (SystemExit 0)\<rparr>"
  have "raises_only_Exceptions ?env"
    using assms by (simp add: raises_only_Exceptions_def raised_in_tick_def)
  then obtain s' where "except_and_sleep (tick_after_clear cfg bi ?env ?s) = Running s'"
    and "sleeps s' = Suc (sleeps ?s)"
    using tick_after_clear_running by blast
  then have "signal_in_enumeration cfg bi henv env s = Running s' \<and> sleeps s' = Suc (sleeps s)"
    using show_offline_screen_sleeps [of cfg henv "s\<lparr>canvas := []\<rparr>"]
    by (simp add: signal_in_enumeration_def signal_handler_def)
  then show ?thesis by (auto simp add: get_network_info_def)
qed

text \<open>
  On the example tick: the process goes on, and the frame that the tick shows is drawn
  over the farewell frame.
\<close>

theorem signal_in_enumeration_swallowed_witness:
  "raises_only_Exceptions example_env
   \<and> signal_in_enumeration example_cfg example_builtins \<lparr>draw_out = None, show_out = None\<rparr>
        example_env example_state
       = Running
          \<lparr>rotation_index = 0, loop_counter = 1,
           canvas =
             [Text 10 8 ''pi'' Font, Text 10 32 ''OFFLINE'' Font_large,
              Text 0 0 ''pi'' Font, Text 0 16 ''0.42'' Font, Text 80 16 ''45C'' Font,
              Text 0 32 ''1.2/4.0GB 30%'' Font, Text 0 48 ''5/32GB 16%'' Font],
           screen =
             [Text 10 8 ''pi'' Font, Text 10 32 ''OFFLINE'' Font_large,
              Text 0 0 ''pi'' Font, Text 0 16 ''0.42'' Font, Text 80 16 ''45C'' Font,
              Text 0 32 ''1.2/4.0GB 30%'' Font, Text 0 48 ''5/32GB 16%'' Font],
           sleeps = 1\<rparr>"
proof -
  have h: "raises_only_Exceptions example_env"
    by (simp add: raises_only_Exceptions_def model_defs example_defs)
  show ?thesis
    using h signal_in_enumeration_swallowed [OF h, of example_cfg example_builtins
        "\<lparr>draw_out = None, show_out = None\<rparr>" example_state]
    by (simp add: signal_in_enumeration_def signal_handler_def show_offline_screen_def
        model_defs example_defs)
qed

end
